theory Spec2Isabelle
  imports Complex_Main
begin

section \<open>Values of the Python run time\<close>

text \<open>
  The exceptions the two modules can raise. \<open>ValueError\<close> is what
  \<open>scipy.stats.chi2_contingency\<close> raises on a table it refuses (the specification
  calls it InvalidInputError), \<open>NameError\<close> is the lookup of a name that is bound
  nowhere, \<open>IndexError\<close> a list index out of range.
\<close>

datatype error = ValueError | NameError | IndexError

text \<open>
  A double as numpy and Python show it: a finite number, one of the two infinities, or
  not-a-number. The finite values are exact reals: rounding, overflow to infinity and the
  sign of zero are left out. Division follows numpy's scalars, which never raise: a
  division by zero gives an infinity or not-a-number (with a warning).
\<close>

datatype float64 = Fin real | PInf | NInf | NaN

fun fneg :: "float64 \<Rightarrow> float64" where
  "fneg (Fin a) = Fin (- a)"
| "fneg PInf = NInf"
| "fneg NInf = PInf"
| "fneg NaN = NaN"

fun fadd :: "float64 \<Rightarrow> float64 \<Rightarrow> float64" where
  "fadd (Fin a) (Fin b) = Fin (a + b)"
| "fadd NaN _ = NaN"
| "fadd _ NaN = NaN"
| "fadd PInf NInf = NaN"
| "fadd NInf PInf = NaN"
| "fadd PInf _ = PInf"
| "fadd _ PInf = PInf"
| "fadd NInf _ = NInf"
| "fadd _ NInf = NInf"

definition fsub :: "float64 \<Rightarrow> float64 \<Rightarrow> float64" where
  "fsub a b = fadd a (fneg b)"

fun fmul :: "float64 \<Rightarrow> float64 \<Rightarrow> float64" where
  "fmul (Fin a) (Fin b) = Fin (a * b)"
| "fmul NaN _ = NaN"
| "fmul _ NaN = NaN"
| "fmul (Fin a) PInf = (if 0 < a then PInf else if a < 0 then NInf else NaN)"
| "fmul (Fin a) NInf = (if 0 < a then NInf else if a < 0 then PInf else NaN)"
| "fmul PInf (Fin b) = (if 0 < b then PInf else if b < 0 then NInf else NaN)"
| "fmul NInf (Fin b) = (if 0 < b then NInf else if b < 0 then PInf else NaN)"
| "fmul PInf PInf = PInf"
| "fmul NInf NInf = PInf"
| "fmul PInf NInf = NInf"
| "fmul NInf PInf = NInf"

fun fdiv :: "float64 \<Rightarrow> float64 \<Rightarrow> float64" where
  "fdiv (Fin a) (Fin b) =
     (if b \<noteq> 0 then Fin (a / b)
      else if 0 < a then PInf else if a < 0 then NInf else NaN)"
| "fdiv NaN _ = NaN"
| "fdiv _ NaN = NaN"
| "fdiv (Fin a) PInf = Fin 0"
| "fdiv (Fin a) NInf = Fin 0"
| "fdiv PInf (Fin b) = (if 0 \<le> b then PInf else NInf)"
| "fdiv NInf (Fin b) = (if 0 \<le> b then NInf else PInf)"
| "fdiv PInf PInf = NaN"
| "fdiv PInf NInf = NaN"
| "fdiv NInf PInf = NaN"
| "fdiv NInf NInf = NaN"

text \<open>
  Addition of doubles is associative and commutative here, the values being exact, so
  sums of doubles can be written with the library's \<open>sum_list\<close> and reordered.
\<close>

instantiation float64 :: comm_monoid_add
begin

definition zero_float64 :: float64 where
  "zero_float64 = Fin 0"

definition plus_float64 :: "float64 \<Rightarrow> float64 \<Rightarrow> float64" where
  "plus_float64 = fadd"

instance
proof
  fix a b c :: float64
  show "a + b + c = a + (b + c)"
    by (cases a; cases b; cases c) (simp_all add: plus_float64_def)
  show "a + b = b + a"
    by (cases a; cases b) (simp_all add: plus_float64_def)
  show "0 + a = a"
    by (cases a) (simp_all add: plus_float64_def zero_float64_def)
qed

end

text \<open>The comparison \<open>a < b\<close>: false as soon as one side is not-a-number.\<close>

fun flt :: "float64 \<Rightarrow> float64 \<Rightarrow> bool" where
  "flt (Fin a) (Fin b) = (a < b)"
| "flt NaN _ = False"
| "flt _ NaN = False"
| "flt PInf _ = False"
| "flt NInf NInf = False"
| "flt NInf _ = True"
| "flt (Fin a) PInf = True"
| "flt (Fin a) NInf = False"

text \<open>
  Python's \<open>max(a, b)\<close> and \<open>min(a, b)\<close> keep the first argument unless the second
  compares strictly greater (strictly less).
\<close>

definition py_max :: "float64 \<Rightarrow> float64 \<Rightarrow> float64" where
  "py_max a b = (if flt a b then b else a)"

definition py_min :: "float64 \<Rightarrow> float64 \<Rightarrow> float64" where
  "py_min a b = (if flt b a then b else a)"

text \<open>\<open>np.sqrt\<close>: not-a-number below zero (with a warning), never an exception.\<close>

fun np_sqrt :: "float64 \<Rightarrow> float64" where
  "np_sqrt (Fin a) = (if a < 0 then NaN else Fin (sqrt a))"
| "np_sqrt PInf = PInf"
| "np_sqrt NInf = NaN"
| "np_sqrt NaN = NaN"

section \<open>Contingency tables\<close>

text \<open>
  A contingency table is a pandas DataFrame of counts, here the list of its rows. The
  cells are 64-bit integers of numpy, given by their values. \<open>shape\<close> is
  \<open>(rows, columns)\<close>; a DataFrame is rectangular, which \<open>is_table\<close> says of the list.
\<close>

type_synonym table = "int list list"

definition n_rows :: "table \<Rightarrow> nat" where
  "n_rows t = length t"

definition n_cols :: "table \<Rightarrow> nat" where
  "n_cols t = (case t of [] \<Rightarrow> 0 | r # _ \<Rightarrow> length r)"

definition shape :: "table \<Rightarrow> nat \<times> nat" where
  "shape t = (n_rows t, n_cols t)"

definition is_table :: "table \<Rightarrow> bool" where
  "is_table t = list_all (\<lambda>r. length r = n_cols t) t"

text \<open>The transpose of a table, \<open>DataFrame.T\<close>: its columns as rows.\<close>

definition transpose_table :: "table \<Rightarrow> table" where
  "transpose_table t = map (\<lambda>j. map (\<lambda>r. r ! j) t) [0..<n_cols t]"

text \<open>The grand total of the table, as a number.\<close>

definition grand_total :: "table \<Rightarrow> int" where
  "grand_total t = sum_list (map sum_list t)"

text \<open>
  Arithmetic on numpy's \<open>int64\<close> wraps around: the result is the value modulo \<open>2 ^ 64\<close>
  that lies between \<open>- 2 ^ 63\<close> and \<open>2 ^ 63 - 1\<close>.
\<close>

definition wrap64 :: "int \<Rightarrow> int" where
  "wrap64 x = (x + 2 ^ 63) mod 2 ^ 64 - 2 ^ 63"

text \<open>
  \<open>np.sum(contingency_table.values)\<close>: the sum of the cells in 64-bit arithmetic, so the
  grand total wrapped around.
\<close>

definition np_sum :: "table \<Rightarrow> int" where
  "np_sum t = wrap64 (grand_total t)"

text \<open>
  What \<open>chi2_contingency\<close> returns and \<open>chi_square_test\<close> hands on: the statistic,
  the p-value, the degrees of freedom and the table of expected frequencies.
\<close>

type_synonym test_result = "float64 \<times> float64 \<times> int \<times> float64 list list"

section \<open>scipy.stats.chi2_contingency\<close>

text \<open>
  The library function the module imports is no part of the repository. This section
  models it from the library's documented algorithm, with the default arguments the
  module uses (\<open>correction=True\<close>, \<open>lambda_=None\<close>), so that the claims about the
  failures and the degrees of freedom of \<open>chi_square_test\<close>, which the library alone
  decides, can be settled.
\<close>

definition row_totals :: "table \<Rightarrow> int list" where
  "row_totals t = map sum_list t"

definition col_totals :: "table \<Rightarrow> int list" where
  "col_totals t = map (\<lambda>j. sum_list (map (\<lambda>r. r ! j) t)) [0..<n_cols t]"

text \<open>
  \<open>expected_freq\<close>: the product of the two marginal sums over the grand total, in
  floating point. On a table of zeros every cell is \<open>0.0/0.0\<close>, not-a-number.
\<close>

definition expected_freq :: "table \<Rightarrow> float64 list list" where
  "expected_freq t =
     map (\<lambda>r. map (\<lambda>c. fdiv (fmul (Fin (of_int r)) (Fin (of_int c))) (Fin (of_int (grand_total t))))
                  (col_totals t))
         (row_totals t)"

fun np_sign :: "float64 \<Rightarrow> float64" where
  "np_sign (Fin a) = Fin (sgn a)"
| "np_sign PInf = Fin 1"
| "np_sign NInf = Fin (- 1)"
| "np_sign NaN = NaN"

fun np_abs :: "float64 \<Rightarrow> float64" where
  "np_abs (Fin a) = Fin \<bar>a\<bar>"
| "np_abs PInf = PInf"
| "np_abs NInf = PInf"
| "np_abs NaN = NaN"

text \<open>\<open>np.minimum\<close> hands a not-a-number on.\<close>

fun np_minimum :: "float64 \<Rightarrow> float64 \<Rightarrow> float64" where
  "np_minimum NaN _ = NaN"
| "np_minimum _ NaN = NaN"
| "np_minimum a b = (if flt b a then b else a)"

text \<open>
  Yates' correction for continuity, applied when there is one degree of freedom: each
  observed count moves towards its expected value by at most one half.
\<close>

definition yates :: "float64 \<Rightarrow> float64 \<Rightarrow> float64" where
  "yates obs ex =
     (let diff = fsub ex obs;
          direction = np_sign diff;
          magnitude = np_minimum (Fin (1 / 2)) (np_abs diff)
      in fadd obs (fmul magnitude direction))"

definition pearson_term :: "float64 \<Rightarrow> float64 \<Rightarrow> float64" where
  "pearson_term obs ex = fdiv (fmul (fsub obs ex) (fsub obs ex)) ex"

definition fsum :: "float64 list \<Rightarrow> float64" where
  "fsum xs = foldr fadd xs (Fin 0)"

text \<open>\<open>power_divergence\<close> with Pearson's \<open>lambda_\<close>: the sum of the terms over all cells.\<close>

definition statistic :: "float64 list list \<Rightarrow> float64 list list \<Rightarrow> float64" where
  "statistic observed expected = fsum (concat (map2 (map2 pearson_term) observed expected))"

text \<open>
  The survival function of the chi-square distribution, exact: \<open>erfc (sqrt (x/2))\<close> for
  one degree of freedom, \<open>exp (- x/2)\<close> for two, and two more degrees of freedom add
  \<open>(x/2) ^ (k/2) * exp (- x/2) / Gamma (k/2 + 1)\<close>. \<open>gamma_half k\<close> is \<open>Gamma (k/2)\<close>.
\<close>

definition erf :: "real \<Rightarrow> real" where
  "erf z = 2 / sqrt pi * (\<Sum>n. (- 1) ^ n * z ^ (2 * n + 1) / (fact n * real (2 * n + 1)))"

fun gamma_half :: "nat \<Rightarrow> real" where
  "gamma_half 0 = 0"
| "gamma_half (Suc 0) = sqrt pi"
| "gamma_half (Suc (Suc 0)) = 1"
| "gamma_half (Suc (Suc (Suc k))) = real (Suc k) / 2 * gamma_half (Suc k)"

fun chi2_sf_real :: "nat \<Rightarrow> real \<Rightarrow> real" where
  "chi2_sf_real 0 x = 0"
| "chi2_sf_real (Suc 0) x = 1 - erf (sqrt (x / 2))"
| "chi2_sf_real (Suc (Suc 0)) x = exp (- x / 2)"
| "chi2_sf_real (Suc (Suc (Suc k))) x =
     chi2_sf_real (Suc k) x
     + (x / 2) powr (real (Suc k) / 2) * exp (- x / 2) / gamma_half (Suc (Suc (Suc k)))"

fun chi2_sf :: "int \<Rightarrow> float64 \<Rightarrow> float64" where
  "chi2_sf dof (Fin x) =
     (if dof \<le> 0 then NaN else if x < 0 then Fin 1 else Fin (chi2_sf_real (nat dof) x))"
| "chi2_sf dof PInf = (if dof \<le> 0 then NaN else Fin 0)"
| "chi2_sf dof NInf = (if dof \<le> 0 then NaN else Fin 1)"
| "chi2_sf dof NaN = NaN"

text \<open>
  The function itself. It refuses a negative count, a table with no cell, and a table
  whose expected frequencies have a zero. With no degree of freedom left (one row or one
  column) it returns statistic 0 and p-value 1 without testing anything. Otherwise it
  returns Pearson's statistic, after Yates' correction when there is one degree of
  freedom, and the p-value of the statistic.
\<close>

definition chi2_contingency :: "table \<Rightarrow> error + test_result" where
  "chi2_contingency observed =
     (if list_ex (list_ex (\<lambda>x. x < 0)) observed then Inl ValueError
      else if n_rows observed * n_cols observed = 0 then Inl ValueError
      else
        let expected = expected_freq observed in
        if list_ex (list_ex (\<lambda>e. e = Fin 0)) expected then Inl ValueError
        else
          let dof = int (n_rows observed * n_cols observed)
                    - int (n_rows observed + n_cols observed) + 2 - 1
          in if dof = 0 then Inr (Fin 0, Fin 1, dof, expected)
             else
               let obs = map (map (\<lambda>x. Fin (of_int x))) observed;
                   obs' = (if dof = 1 then map2 (map2 yates) obs expected else obs);
                   chi2 = statistic obs' expected;
                   p = chi2_sf dof chi2
               in Inr (chi2, p, dof, expected))"






section \<open>categorical_association.py\<close>

text \<open>
  The functions of the module call \<open>chi2_contingency\<close>, imported from scipy. They take
  it here as the argument \<open>c2c\<close>, so that what is proved of them holds whatever the
  library computes; a model of the library follows in its own section.
\<close>

type_synonym library = "table \<Rightarrow> error + test_result"

subsection \<open>chi_square_test\<close>

text \<open>
  A printed line is the list of its pieces: literal text and formatted values
  (\<open>{x:.4f}\<close>, \<open>{x:.4e}\<close>, \<open>{dof}\<close>, \<open>{alpha}\<close>, and the list of \<open>{x:.2f}\<close> strings of
  a row of expected frequencies).
\<close>

datatype piece =
  Lit string
| Fmt_4f float64
| Fmt_4e float64
| Fmt_int int
| Fmt_float float64
| Fmt_2f_list "float64 list"

type_synonym line = "piece list"

definition reject_line :: line where
  "reject_line = [Lit ''Decision: Reject H0 (The variables are not independent).'']"

definition fail_to_reject_line :: line where
  "fail_to_reject_line = [Lit ''Decision: Fail to reject H0 (No evidence of dependence).'']"

definition decision_line :: "float64 \<Rightarrow> float64 \<Rightarrow> line" where
  "decision_line p alpha = (if flt p alpha then reject_line else fail_to_reject_line)"

definition report :: "test_result \<Rightarrow> float64 \<Rightarrow> line list" where
  "report r alpha =
     (case r of (chi2, p, dof, expected) \<Rightarrow>
        [[Lit ''Chi-Square Statistic: '', Fmt_4f chi2],
         [Lit ''P-value: '', Fmt_4e p],
         [Lit ''Degrees of Freedom: '', Fmt_int dof],
         [Lit ''Significance Level (alpha): '', Fmt_float alpha],
         decision_line p alpha,
         [Lit (CHR 0x0A # ''Expected Frequencies:'')]]
        @ map (\<lambda>row. [Lit ''  '', Fmt_2f_list row]) expected)"

text \<open>
  The call either raises what \<open>chi2_contingency\<close> raised, before anything is printed, or
  prints the report and returns the four values it got from the library.
\<close>

definition chi_square_test ::
  "library \<Rightarrow> table \<Rightarrow> float64 \<Rightarrow> error + (test_result \<times> line list)" where
  "chi_square_test c2c contingency_table alpha =
     (case c2c contingency_table of
        Inl e \<Rightarrow> Inl e
      | Inr r \<Rightarrow> Inr (r, report r alpha))"

definition returned :: "error + ('a \<times> line list) \<Rightarrow> 'a option" where
  "returned out = (case out of Inl _ \<Rightarrow> None | Inr (r, _) \<Rightarrow> Some r)"

definition printed :: "error + ('a \<times> line list) \<Rightarrow> line list" where
  "printed out = (case out of Inl _ \<Rightarrow> [] | Inr (_, ls) \<Rightarrow> ls)"

text \<open>
  The two decisions of the specification, read off the report: a printed line is a
  decision when it is one of the two decision messages.
\<close>

datatype decision = REJECT_H0 | FAIL_TO_REJECT_H0

definition decision_of_line :: "line \<Rightarrow> decision option" where
  "decision_of_line l =
     (if l = reject_line then Some REJECT_H0
      else if l = fail_to_reject_line then Some FAIL_TO_REJECT_H0 else None)"

primrec decisions :: "line list \<Rightarrow> decision list" where
  "decisions [] = []"
| "decisions (l # ls) =
     (case decision_of_line l of None \<Rightarrow> decisions ls | Some d \<Rightarrow> d # decisions ls)"

subsection \<open>cal_cramer_v\<close>

definition cal_cramer_v :: "library \<Rightarrow> table \<Rightarrow> error + float64" where
  "cal_cramer_v c2c contingency_table =
     (case c2c contingency_table of
        Inl e \<Rightarrow> Inl e
      | Inr (chi2, _, _, _) \<Rightarrow>
          let n = np_sum contingency_table;
              k = (case shape contingency_table of (r, c) \<Rightarrow> min r c);
              v = np_sqrt (fdiv chi2 (Fin (of_int (wrap64 (n * int k)))))
          in Inr v)"

subsection \<open>cal_cramer_v_adjusted\<close>

text \<open>
  The names with a numeric value that are in scope in the body of the helper
  \<open>cal_k_val(num, n)\<close>: its two parameters, then the locals of the enclosing function
  bound before the call. The other names in scope (\<open>contingency_table\<close>, \<open>_\<close>,
  \<open>cal_k_val\<close>, the module's \<open>pd\<close>, \<open>np\<close>, \<open>go\<close>, \<open>chi2_contingency\<close> and its three
  functions, Python's builtins) are bound to objects that are no numbers; none of them
  is called \<open>r\<close> either.
\<close>

definition locals_before_cal_k_val ::
  "float64 \<Rightarrow> int \<Rightarrow> nat \<Rightarrow> nat \<Rightarrow> float64 \<Rightarrow> (string \<times> float64) list" where
  "locals_before_cal_k_val chi2 n n_row n_col numerator =
     [(''chi2'', chi2), (''n'', Fin (of_int n)), (''n_row'', Fin (of_nat n_row)),
      (''n_col'', Fin (of_nat n_col)), (''numerator'', numerator)]"

definition scope_of_cal_k_val ::
  "int \<Rightarrow> int \<Rightarrow> float64 \<Rightarrow> nat \<Rightarrow> nat \<Rightarrow> float64 \<Rightarrow> (string \<times> float64) list" where
  "scope_of_cal_k_val num n chi2 n_row n_col numerator =
     [(''num'', Fin (of_int num)), (''n'', Fin (of_int n))]
     @ locals_before_cal_k_val chi2 n n_row n_col numerator"

text \<open>
  \<open>val = num-1/(n-1)*(r-1)**2\<close>: \<open>num\<close> and \<open>1/(n-1)\<close> are evaluated (a numpy division,
  which does not raise), then the name \<open>r\<close> is looked up.
\<close>

definition cal_k_val :: "(string \<times> float64) list \<Rightarrow> int \<Rightarrow> int \<Rightarrow> error + float64" where
  "cal_k_val scope num n =
     (case map_of scope ''r'' of
        None \<Rightarrow> Inl NameError
      | Some r \<Rightarrow>
          Inr (fsub (Fin (of_int num))
                 (fmul (fdiv (Fin 1) (Fin (of_int (wrap64 (n - 1)))))
                       (fmul (fsub r (Fin 1)) (fsub r (Fin 1))))))"

text \<open>
  The run of the function: how it ends, and the numeric locals of its frame at that
  moment, in the order they were bound. Nothing numeric is bound when the library
  raises. Otherwise \<open>chi2\<close>, \<open>n\<close>, \<open>n_row\<close>, \<open>n_col\<close> and
  \<open>numerator = max(0, chi2/n - (n_col-1)*(n_row-1)/(n-1))\<close> are bound before the helper is
  called; in the numerator the product of the two Python integers is divided by the
  numpy integer \<open>n - 1\<close>, a numpy division.
\<close>

definition cal_cramer_v_adjusted_run ::
  "library \<Rightarrow> table \<Rightarrow> (string \<times> float64) list \<times> (error + float64)" where
  "cal_cramer_v_adjusted_run c2c contingency_table =
     (case c2c contingency_table of
        Inl e \<Rightarrow> ([], Inl e)
      | Inr (chi2, _, _, _) \<Rightarrow>
          let n = np_sum contingency_table;
              (n_row, n_col) = shape contingency_table;
              numerator =
                py_max (Fin 0)
                  (fsub (fdiv chi2 (Fin (of_int n)))
                        (fdiv (Fin (of_int ((int n_col - 1) * (int n_row - 1))))
                              (Fin (of_int (wrap64 (n - 1))))));
              frame = locals_before_cal_k_val chi2 n n_row n_col numerator
          in (case cal_k_val (scope_of_cal_k_val (int n_col) n chi2 n_row n_col numerator)
                     (int n_col) n of
                Inl e \<Rightarrow> (frame, Inl e)
              | Inr k_col \<Rightarrow>
                 (case cal_k_val (scope_of_cal_k_val (int n_row) n chi2 n_row n_col numerator)
                         (int n_row) n of
                    Inl e \<Rightarrow> (frame @ [(''k_col'', k_col)], Inl e)
                  | Inr k_row \<Rightarrow>
                      let denominator = py_min k_col k_row;
                          v = np_sqrt (fdiv numerator denominator)
                      in (frame @ [(''k_col'', k_col), (''k_row'', k_row),
                                   (''denominator'', denominator), (''v'', v)], Inr v))))"

text \<open>What the caller sees of the run: the value returned, or the exception.\<close>

definition cal_cramer_v_adjusted :: "library \<Rightarrow> table \<Rightarrow> error + float64" where
  "cal_cramer_v_adjusted c2c contingency_table =
     snd (cal_cramer_v_adjusted_run c2c contingency_table)"

section \<open>plotter.py: plot_bar_chart_multivariate_y_col\<close>

text \<open>
  The call names three columns of the DataFrame, three different ones that the frame
  has. The frame is given here by these three columns: the list of its rows, each the
  values of the x column, the group column and the y column. A value of the group column
  is a Python string (a column of strings), a numpy integer (a column of integers), or
  missing (\<open>NaN\<close>, \<open>None\<close>).
\<close>

datatype label = Str string | NpInt int | Missing

type_synonym ('x, 'y) row = "'x \<times> label \<times> 'y"






text \<open>
  The figure is what the function hands to plotly: the bar traces in the order they were
  added, and the layout.
\<close>

record ('x, 'y) bar =
  bar_x :: "'x list"
  bar_y :: "'y list"
  bar_name :: label
  marker_color :: string










section \<open>The library on five tables\<close>

lemmas chi2_contingency_unfold =
  chi2_contingency_def n_rows_def n_cols_def expected_freq_def row_totals_def col_totals_def
  grand_total_def statistic_def pearson_term_def fsum_def fsub_def yates_def Let_def upt_rec
  numeral_2_eq_2

lemma exp_8_3_upper: "exp (8 / 3 :: real) < 20"
proof -
  have "exp (8 / 3 :: real) ^ 3 = exp (of_nat 3 * (8 / 3))"
    by (rule exp_of_nat_mult [symmetric])
  also have "\<dots> = exp (of_nat 8 * 1)" by simp
  also have "\<dots> = exp 1 ^ 8" by (rule exp_of_nat_mult)
  also have "\<dots> \<le> 3 ^ 8" by (rule power_mono) (simp_all add: exp_le)
  also have "\<dots> < (20::real) ^ 3" by simp
  finally show ?thesis by (rule power_less_imp_less_base) simp
qed

lemma exp_8_3_lower: "10 < exp (8 / 3 :: real)"
proof -
  have "(17 / 9 :: real) \<le> exp (2 / 3)"
    using exp_lower_Taylor_quadratic [of "2 / 3 :: real"] by (simp add: power2_eq_square)
  then have "(17 / 9 :: real) ^ 4 \<le> exp (2 / 3) ^ 4"
    by (rule power_mono) simp
  also have "\<dots> = exp (of_nat 4 * (2 / 3 :: real))"
    by (rule exp_of_nat_mult [symmetric])
  also have "\<dots> = exp (8 / 3)" by simp
  finally have "(17 / 9 :: real) ^ 4 \<le> exp (8 / 3)" .
  moreover have "(10::real) < (17 / 9) ^ 4" by (simp add: power4_eq_xxxx)
  ultimately show ?thesis by linarith
qed

lemma exp_minus_8_3: "1 / 20 < exp (- (8 / 3) :: real) \<and> exp (- (8 / 3) :: real) < 1 / 10"
proof -
  have e: "exp (- (8 / 3) :: real) = 1 / exp (8 / 3)"
    by (simp add: exp_minus inverse_eq_divide)
  show ?thesis unfolding e using exp_8_3_upper exp_8_3_lower
    by (simp add: field_simps)
qed

lemma chi2_contingency_2x3:
  "chi2_contingency [[10, 20, 30], [20, 20, 20]] =
     Inr (Fin (16 / 3), Fin (exp (- (8 / 3))), 2,
          [[Fin 15, Fin 20, Fin 25], [Fin 15, Fin 20, Fin 25]])"
  by (simp add: chi2_contingency_unfold)

lemma chi2_contingency_2x2:
  "chi2_contingency [[10, 20], [20, 10]] =
     Inr (Fin (27 / 5), chi2_sf 1 (Fin (27 / 5)), 1, [[Fin 15, Fin 15], [Fin 15, Fin 15]])"
  by (simp add: chi2_contingency_unfold)

lemma chi2_contingency_1x3:
  "chi2_contingency [[1, 2, 3]] = Inr (Fin 0, Fin 1, 0, [[Fin 1, Fin 2, Fin 3]])"
  by (simp add: chi2_contingency_unfold)

lemma chi2_contingency_zeros:
  "chi2_contingency [[0, 0], [0, 0]] = Inr (NaN, NaN, 1, [[NaN, NaN], [NaN, NaN]])"
  by (simp add: chi2_contingency_unfold)


section \<open>The report and the value of chi_square_test\<close>

lemma decision_of_decision_line:
  "decision_of_line (decision_line p alpha) =
     Some (if flt p alpha then REJECT_H0 else FAIL_TO_REJECT_H0)"
  by (simp add: decision_of_line_def decision_line_def reject_line_def fail_to_reject_line_def)

lemma decision_of_row_line: "decision_of_line [Lit s, x] = None"
  by (simp add: decision_of_line_def reject_line_def fail_to_reject_line_def)

lemma decision_of_header: "decision_of_line [Lit (CHR 0x0A # ''Expected Frequencies:'')] = None"
  by (simp add: decision_of_line_def reject_line_def fail_to_reject_line_def)

lemma decisions_append: "decisions (xs @ ys) = decisions xs @ decisions ys"
  by (induction xs) (simp_all split: option.split)

lemma decisions_rows: "decisions (map (\<lambda>row. [Lit ''  '', Fmt_2f_list row]) expected) = []"
  by (induction expected) (simp_all add: decision_of_row_line)

lemma decisions_report:
  "decisions (report (chi2, p, dof, expected) alpha) =
     [if flt p alpha then REJECT_H0 else FAIL_TO_REJECT_H0]"
  by (simp add: report_def decisions_append decisions_rows
        decision_of_row_line decision_of_header decision_of_decision_line)

text \<open>
  C1. Whenever \<open>chi2_contingency\<close> accepts the table and returns the p-value \<open>p\<close>, the
  report of \<open>chi_square_test\<close> holds exactly one decision: REJECT_H0 if \<open>p < alpha\<close>, and
  FAIL_TO_REJECT_H0 otherwise. This holds for every table, every threshold and whatever
  the library computes.
\<close>

theorem chi_square_test_decision:
  assumes "c2c t = Inr (chi2, p, dof, expected)"
  shows "decisions (printed (chi_square_test c2c t alpha)) =
           [if flt p alpha then REJECT_H0 else FAIL_TO_REJECT_H0]"
  using assms by (simp add: chi_square_test_def printed_def decisions_report)

theorem chi_square_test_decision_witness:
  "chi2_contingency [[10, 20, 30], [20, 20, 20]] =
     Inr (Fin (16 / 3), Fin (exp (- (8 / 3))), 2,
          [[Fin 15, Fin 20, Fin 25], [Fin 15, Fin 20, Fin 25]])
   \<and> decisions (printed (chi_square_test chi2_contingency [[10, 20, 30], [20, 20, 20]]
         (Fin (5 / 100)))) = [FAIL_TO_REJECT_H0]
   \<and> decisions (printed (chi_square_test chi2_contingency [[10, 20, 30], [20, 20, 20]]
         (Fin (10 / 100)))) = [REJECT_H0]"
  using chi_square_test_decision [where c2c = chi2_contingency
      and t = "[[10, 20, 30], [20, 20, 20]]" and alpha = "Fin (5 / 100)"]
    chi_square_test_decision [where c2c = chi2_contingency
      and t = "[[10, 20, 30], [20, 20, 20]]" and alpha = "Fin (10 / 100)"]
    chi2_contingency_2x3 exp_minus_8_3
  by simp

text \<open>
  C6. The claim fails: the value \<open>chi_square_test\<close> returns holds no decision label. On
  the same table the calls with \<open>alpha = 0.05\<close> and \<open>alpha = 0.10\<close> return the same
  value, and decide differently.
\<close>

theorem chi_square_test_value_without_decision:
  "returned (chi_square_test chi2_contingency [[10, 20, 30], [20, 20, 20]] (Fin (5 / 100))) =
   returned (chi_square_test chi2_contingency [[10, 20, 30], [20, 20, 20]] (Fin (10 / 100)))
   \<and> decisions (printed (chi_square_test chi2_contingency [[10, 20, 30], [20, 20, 20]]
         (Fin (5 / 100)))) = [FAIL_TO_REJECT_H0]
   \<and> decisions (printed (chi_square_test chi2_contingency [[10, 20, 30], [20, 20, 20]]
         (Fin (10 / 100)))) = [REJECT_H0]"
  using exp_minus_8_3
  by (simp add: chi_square_test_def returned_def printed_def chi2_contingency_2x3
      decisions_report)

text \<open>
  C6, as amended. Whenever \<open>chi2_contingency\<close> accepts the table, \<open>chi_square_test\<close>
  returns the four values the library computed (statistic, p-value, degrees of freedom,
  expected frequencies), whatever \<open>alpha\<close> is; the decision is in the printed report
  only.
\<close>

theorem chi_square_test_returns_four:
  assumes "c2c t = Inr (chi2, p, dof, expected)"
  shows "returned (chi_square_test c2c t alpha) = Some (chi2, p, dof, expected)
         \<and> printed (chi_square_test c2c t alpha) = report (chi2, p, dof, expected) alpha
         \<and> decisions (report (chi2, p, dof, expected) alpha) =
             [if flt p alpha then REJECT_H0 else FAIL_TO_REJECT_H0]"
  using assms by (simp add: chi_square_test_def printed_def returned_def decisions_report)

theorem chi_square_test_returns_four_witness:
  "chi2_contingency [[10, 20], [20, 10]] =
     Inr (Fin (27 / 5), chi2_sf 1 (Fin (27 / 5)), 1, [[Fin 15, Fin 15], [Fin 15, Fin 15]])
   \<and> returned (chi_square_test chi2_contingency [[10, 20], [20, 10]] (Fin (5 / 100))) =
       Some (Fin (27 / 5), chi2_sf 1 (Fin (27 / 5)), 1, [[Fin 15, Fin 15], [Fin 15, Fin 15]])"
  using chi_square_test_returns_four [where c2c = chi2_contingency
      and t = "[[10, 20], [20, 10]]" and alpha = "Fin (5 / 100)"]
    chi2_contingency_2x2
  by simp

section \<open>64-bit arithmetic\<close>





text \<open>
  Where the sum wraps, \<open>cal_cramer_v\<close> divides by the wrapped value: four cells of
  \<open>2 ^ 62\<close> sum to 0 in 64 bits, and the call returns not-a-number.
\<close>

lemma cal_cramer_v_wraps:
  "np_sum [[2 ^ 62, 2 ^ 62], [2 ^ 62, 2 ^ 62]] = 0
   \<and> cal_cramer_v chi2_contingency [[2 ^ 62, 2 ^ 62], [2 ^ 62, 2 ^ 62]] = Inr NaN"
  by (simp add: cal_cramer_v_def shape_def np_sum_def wrap64_def chi2_contingency_unfold)

section \<open>Tables with a positive grand total\<close>



section \<open>The adjusted score\<close>

lemma cal_k_val_NameError:
  "cal_k_val (scope_of_cal_k_val num n chi2 n_row n_col numer) num' n' = Inl NameError"
  by (simp add: cal_k_val_def scope_of_cal_k_val_def locals_before_cal_k_val_def)

lemma cal_cramer_v_adjusted_run_result:
  "cal_cramer_v_adjusted_run c2c t =
     (case c2c t of
        Inl e \<Rightarrow> ([], Inl e)
      | Inr (chi2, p, dof, expected) \<Rightarrow>
          (locals_before_cal_k_val chi2 (np_sum t) (n_rows t) (n_cols t)
             (py_max (Fin 0)
                (fsub (fdiv chi2 (Fin (of_int (np_sum t))))
                   (fdiv (Fin (of_int ((int (n_cols t) - 1) * (int (n_rows t) - 1))))
                      (Fin (of_int (wrap64 (np_sum t - 1))))))),
           Inl NameError))"
  by (simp add: cal_cramer_v_adjusted_run_def cal_k_val_NameError Let_def shape_def
        split: sum.split prod.split)

lemma cal_cramer_v_adjusted_result:
  "cal_cramer_v_adjusted c2c t = Inl (case c2c t of Inl e \<Rightarrow> e | Inr r \<Rightarrow> NameError)"
  by (simp add: cal_cramer_v_adjusted_def cal_cramer_v_adjusted_run_result
        split: sum.split prod.split)

text \<open>
  C3. \<open>cal_cramer_v_adjusted\<close> returns no value on any input: the call ends in the error
  of \<open>chi2_contingency\<close> when the library refuses the table, and in NameError, raised by
  the helper \<open>cal_k_val\<close> at the name \<open>r\<close>, on every other input.
\<close>

theorem cal_cramer_v_adjusted_never_returns:
  "(\<forall>v. cal_cramer_v_adjusted c2c t \<noteq> Inr v)
   \<and> cal_cramer_v_adjusted c2c t = Inl (case c2c t of Inl e \<Rightarrow> e | Inr r \<Rightarrow> NameError)"
  by (simp add: cal_cramer_v_adjusted_result)


section \<open>The grouped bar chart\<close>












section \<open>What the library accepts\<close>

lemma dof_product:
  "int (r * c) - int (r + c) + 2 - 1 = (int r - 1) * (int c - 1)"
  by (simp add: algebra_simps)

lemma expected_cell_nonzero:
  "r \<noteq> 0 \<Longrightarrow> c \<noteq> 0 \<Longrightarrow>
     fdiv (fmul (Fin (real_of_int r)) (Fin (real_of_int c))) (Fin (real_of_int n)) \<noteq> Fin 0"
  by simp

lemma expected_freq_no_zero:
  assumes "list_all (\<lambda>s. s \<noteq> 0) (row_totals t)" and "list_all (\<lambda>s. s \<noteq> 0) (col_totals t)"
  shows "\<not> list_ex (list_ex (\<lambda>e. e = Fin 0)) (expected_freq t)"
proof
  assume "list_ex (list_ex (\<lambda>e. e = Fin 0)) (expected_freq t)"
  then obtain r c where rc: "r \<in> set (row_totals t)" "c \<in> set (col_totals t)"
    and z: "fdiv (fmul (Fin (real_of_int r)) (Fin (real_of_int c)))
              (Fin (real_of_int (grand_total t))) = Fin 0"
    unfolding expected_freq_def list_ex_iff by (auto simp del: fdiv.simps fmul.simps)
  from rc assms have "r \<noteq> 0" and "c \<noteq> 0" by (auto simp: list_all_iff)
  from expected_cell_nonzero [OF this] z show False by blast
qed

lemma chi2_contingency_product:
  "chi2_contingency observed =
     (if list_ex (list_ex (\<lambda>x. x < 0)) observed then Inl ValueError
      else if n_rows observed * n_cols observed = 0 then Inl ValueError
      else if list_ex (list_ex (\<lambda>e. e = Fin 0)) (expected_freq observed) then Inl ValueError
      else if (int (n_rows observed) - 1) * (int (n_cols observed) - 1) = 0
        then Inr (Fin 0, Fin 1, (int (n_rows observed) - 1) * (int (n_cols observed) - 1),
                  expected_freq observed)
      else
        let dof = (int (n_rows observed) - 1) * (int (n_cols observed) - 1);
            obs = map (map (\<lambda>x. Fin (of_int x))) observed;
            obs' = (if dof = 1 then map2 (map2 yates) obs (expected_freq observed) else obs);
            chi2 = statistic obs' (expected_freq observed)
        in Inr (chi2, chi2_sf dof chi2, dof, expected_freq observed))"
  unfolding chi2_contingency_def dof_product Let_def by simp

lemma chi2_contingency_accepts:
  assumes "\<not> list_ex (list_ex (\<lambda>x. x < 0)) t" and "0 < n_rows t" and "0 < n_cols t"
    and "list_all (\<lambda>s. s \<noteq> 0) (row_totals t)" and "list_all (\<lambda>s. s \<noteq> 0) (col_totals t)"
  shows "\<exists>chi2 p. chi2_contingency t =
           Inr (chi2, p, (int (n_rows t) - 1) * (int (n_cols t) - 1), expected_freq t)
         \<and> ((int (n_rows t) - 1) * (int (n_cols t) - 1) = 0 \<longrightarrow> chi2 = Fin 0 \<and> p = Fin 1)"
proof (cases "(int (n_rows t) - 1) * (int (n_cols t) - 1) = 0")
  case True
  with assms(1,2,3) expected_freq_no_zero [OF assms(4,5)] show ?thesis
    by (subst chi2_contingency_product) simp
next
  case False
  with assms(1,2,3) expected_freq_no_zero [OF assms(4,5)] show ?thesis
    by (subst chi2_contingency_product) (simp add: Let_def)
qed

lemma chi2_contingency_dof:
  assumes "chi2_contingency t = Inr (chi2, p, dof, expected)"
  shows "dof = (int (n_rows t) - 1) * (int (n_cols t) - 1)"
  using assms
  by (subst (asm) chi2_contingency_product) (auto simp add: Let_def split: if_splits)

text \<open>
  C9. On a rectangular table with at least two rows and two columns, no negative count
  and no zero row or column total, \<open>chi_square_test\<close> returns, and the degrees of freedom
  it returns are \<open>(R-1)*(C-1)\<close>.
\<close>

theorem chi_square_test_degrees_of_freedom:
  assumes "is_table t" and "2 \<le> n_rows t" and "2 \<le> n_cols t"
    and "\<not> list_ex (list_ex (\<lambda>x. x < 0)) t"
    and "list_all (\<lambda>s. s \<noteq> 0) (row_totals t)" and "list_all (\<lambda>s. s \<noteq> 0) (col_totals t)"
  shows "\<exists>chi2 p expected out.
           chi_square_test chi2_contingency t alpha =
             Inr ((chi2, p, (int (n_rows t) - 1) * (int (n_cols t) - 1), expected), out)"
proof -
  from assms(2,3) have "0 < n_rows t" and "0 < n_cols t" by simp_all
  from chi2_contingency_accepts [OF assms(4) this assms(5,6)]
  obtain chi2 p where "chi2_contingency t =
      Inr (chi2, p, (int (n_rows t) - 1) * (int (n_cols t) - 1), expected_freq t)"
    by blast
  then show ?thesis by (simp add: chi_square_test_def)
qed

theorem chi_square_test_degrees_of_freedom_witness:
  "is_table [[10, 20, 30], [20, 20, 20]]
   \<and> n_rows [[10, 20, 30], [20, 20, 20]] = 2 \<and> n_cols [[10, 20, 30], [20, 20, 20]] = 3
   \<and> row_totals [[10, 20, 30], [20, 20, 20]] = [60, 60]
   \<and> col_totals [[10, 20, 30], [20, 20, 20]] = [30, 40, 50]
   \<and> (\<exists>chi2 p expected out.
         chi_square_test chi2_contingency [[10, 20, 30], [20, 20, 20]] (Fin (5 / 100)) =
           Inr ((chi2, p, 2, expected), out))"
proof -
  have t: "is_table [[10, 20, 30], [20, 20, 20]]"
    by (simp add: is_table_def n_cols_def)
  have r: "n_rows [[10, 20, 30], [20, 20, 20]] = 2"
    and c: "n_cols [[10, 20, 30], [20, 20, 20]] = 3"
    by (simp_all add: n_rows_def n_cols_def)
  have rt: "row_totals [[10, 20, 30], [20, 20, 20]] = [60, 60]"
    by (simp add: row_totals_def)
  have ct: "col_totals [[10, 20, 30], [20, 20, 20]] = [30, 40, 50]"
    by (simp add: col_totals_def c upt_rec)
  have "\<exists>chi2 p expected out.
         chi_square_test chi2_contingency [[10, 20, 30], [20, 20, 20]] (Fin (5 / 100)) =
           Inr ((chi2, p, (int (n_rows [[10, 20, 30], [20, 20, 20]]) - 1)
                          * (int (n_cols [[10, 20, 30], [20, 20, 20]]) - 1), expected), out)"
    by (rule chi_square_test_degrees_of_freedom [OF t]) (simp_all add: r c rt ct)
  then show ?thesis using t rt ct by (simp add: r c)
qed

section \<open>What the library refuses\<close>

lemma list_ex_expected_freq:
  "list_ex (list_ex P) (expected_freq t) \<longleftrightarrow>
     (\<exists>r \<in> set (row_totals t). \<exists>c \<in> set (col_totals t).
        P (fdiv (fmul (Fin (real_of_int r)) (Fin (real_of_int c))) (Fin (real_of_int (grand_total t)))))"
  unfolding expected_freq_def list_ex_iff by (auto simp del: fdiv.simps fmul.simps)

lemma row_totals_nonempty: "0 < n_rows t \<Longrightarrow> row_totals t \<noteq> []"
  by (simp add: row_totals_def n_rows_def)

lemma col_totals_nonempty: "0 < n_cols t \<Longrightarrow> col_totals t \<noteq> []"
  by (simp add: col_totals_def)

lemma expected_freq_zero:
  assumes "grand_total t \<noteq> 0" and "0 < n_rows t" and "0 < n_cols t"
    and "0 \<in> set (row_totals t) \<or> 0 \<in> set (col_totals t)"
  shows "list_ex (list_ex (\<lambda>e. e = Fin 0)) (expected_freq t)"
proof -
  from assms(2) obtain r where r: "r \<in> set (row_totals t)"
    using row_totals_nonempty [of t] by (cases "row_totals t") auto
  from assms(3) obtain c where c: "c \<in> set (col_totals t)"
    using col_totals_nonempty [of t] by (cases "col_totals t") auto
  from assms(4) show ?thesis
  proof
    assume "0 \<in> set (row_totals t)"
    with c assms(1) show ?thesis
      unfolding list_ex_expected_freq by (intro bexI [of _ 0] bexI [of _ c]) simp_all
  next
    assume "0 \<in> set (col_totals t)"
    with r assms(1) show ?thesis
      unfolding list_ex_expected_freq by (intro bexI [of _ r] bexI [of _ 0]) simp_all
  qed
qed

lemma chi2_contingency_zero_total:
  assumes "grand_total t \<noteq> 0" and "0 \<in> set (row_totals t) \<or> 0 \<in> set (col_totals t)"
  shows "chi2_contingency t = Inl ValueError"
proof (cases "list_ex (list_ex (\<lambda>x. x < 0)) t \<or> n_rows t * n_cols t = 0")
  case True
  then show ?thesis by (auto simp add: chi2_contingency_def)
next
  case False
  then have "0 < n_rows t" and "0 < n_cols t" by simp_all
  from expected_freq_zero [OF assms(1) this assms(2)] False show ?thesis
    by (simp add: chi2_contingency_def)
qed

lemma chi2_contingency_one_axis:
  assumes "\<not> list_ex (list_ex (\<lambda>x. x < 0)) t" and "0 < n_rows t" and "0 < n_cols t"
    and "n_rows t < 2 \<or> n_cols t < 2"
    and "list_all (\<lambda>s. s \<noteq> 0) (row_totals t)" and "list_all (\<lambda>s. s \<noteq> 0) (col_totals t)"
  shows "chi2_contingency t = Inr (Fin 0, Fin 1, 0, expected_freq t)"
proof -
  from assms(2,3,4) have "(int (n_rows t) - 1) * (int (n_cols t) - 1) = 0" by auto
  with chi2_contingency_accepts [OF assms(1,2,3,5,6)] show ?thesis by auto
qed

text \<open>
  C4. The claim fails: a table with fewer than two rows is not refused. On \<open>[[1, 2, 3]]\<close>
  the call returns statistic 0, p-value 1 and no degree of freedom. Nor is a table of
  zeros refused, all of whose totals are zero: its expected frequencies are
  not-a-number, which is not zero.
\<close>

theorem chi_square_test_one_row_returns:
  "n_rows [[1, 2, 3]] < 2
   \<and> returned (chi_square_test chi2_contingency [[1, 2, 3]] (Fin (5 / 100))) =
       Some (Fin 0, Fin 1, 0, [[Fin 1, Fin 2, Fin 3]])
   \<and> row_totals [[0, 0], [0, 0]] = [0, 0]
   \<and> returned (chi_square_test chi2_contingency [[0, 0], [0, 0]] (Fin (5 / 100))) =
       Some (NaN, NaN, 1, [[NaN, NaN], [NaN, NaN]])"
  by (simp add: chi_square_test_def returned_def chi2_contingency_1x3 chi2_contingency_zeros
        n_rows_def row_totals_def)

text \<open>
  C4, as amended. \<open>chi_square_test\<close> ends in ValueError, raised by \<open>chi2_contingency\<close>,
  whenever some row total or some column total is zero and the grand total is not. A
  table with only one row or only one column is not refused for that: with no negative
  count and no zero total the call returns statistic 0, p-value 1 and no degree of
  freedom.
\<close>

theorem chi_square_test_refuses_zero_total:
  assumes "is_table t"
  shows "(grand_total t \<noteq> 0 \<and> (0 \<in> set (row_totals t) \<or> 0 \<in> set (col_totals t)) \<longrightarrow>
            chi_square_test chi2_contingency t alpha = Inl ValueError)
         \<and> (\<not> list_ex (list_ex (\<lambda>x. x < 0)) t \<and> 0 < n_rows t \<and> 0 < n_cols t
              \<and> (n_rows t < 2 \<or> n_cols t < 2)
              \<and> list_all (\<lambda>s. s \<noteq> 0) (row_totals t) \<and> list_all (\<lambda>s. s \<noteq> 0) (col_totals t) \<longrightarrow>
            returned (chi_square_test chi2_contingency t alpha) =
              Some (Fin 0, Fin 1, 0, expected_freq t))"
  by (auto simp add: chi_square_test_def returned_def chi2_contingency_zero_total
        chi2_contingency_one_axis)

theorem chi_square_test_refuses_zero_total_witness:
  "is_table [[0, 0], [5, 10]] \<and> grand_total [[0, 0], [5, 10]] = 15
   \<and> row_totals [[0, 0], [5, 10]] = [0, 15]
   \<and> chi_square_test chi2_contingency [[0, 0], [5, 10]] (Fin (5 / 100)) = Inl ValueError
   \<and> is_table [[4], [6]] \<and> n_cols [[4], [6]] = 1
   \<and> returned (chi_square_test chi2_contingency [[4], [6]] (Fin (5 / 100))) =
       Some (Fin 0, Fin 1, 0, [[Fin 4], [Fin 6]])"
proof -
  have t: "is_table [[0, 0], [5, 10]]" and t': "is_table [[4], [6]]"
    by (simp_all add: is_table_def n_cols_def)
  have n: "grand_total [[0, 0], [5, 10]] = 15" by (simp add: grand_total_def)
  have rt: "row_totals [[0, 0], [5, 10]] = [0, 15]" by (simp add: row_totals_def)
  have c: "n_cols [[4], [6]] = 1" and r: "n_rows [[4], [6]] = 2"
    by (simp_all add: n_cols_def n_rows_def)
  have rt': "row_totals [[4], [6]] = [4, 6]" by (simp add: row_totals_def)
  have ct': "col_totals [[4], [6]] = [10]" by (simp add: col_totals_def c)
  have e: "expected_freq [[4], [6]] = [[Fin 4], [Fin 6]]"
    by (simp add: expected_freq_def rt' ct' grand_total_def)
  show ?thesis
    using chi_square_test_refuses_zero_total [OF t, of "Fin (5 / 100)"]
      chi_square_test_refuses_zero_total [OF t', of "Fin (5 / 100)"] t t'
    by (simp add: n rt c r rt' ct' e)
qed

section \<open>Tables with grand total zero\<close>

lemma cal_cramer_v_fails_with_library:
  "cal_cramer_v c2c t = Inl e \<longleftrightarrow> c2c t = Inl e"
  by (simp add: cal_cramer_v_def Let_def split: sum.split prod.split)












section \<open>Transposed tables\<close>

lemma is_table_row: "is_table t \<Longrightarrow> i < length t \<Longrightarrow> length (t ! i) = n_cols t"
  by (simp add: is_table_def list_all_iff)

lemma n_rows_transpose: "n_rows (transpose_table t) = n_cols t"
  by (simp add: n_rows_def transpose_table_def)

lemma n_cols_transpose: "0 < n_cols t \<Longrightarrow> n_cols (transpose_table t) = n_rows t"
  by (simp add: n_cols_def n_rows_def transpose_table_def upt_rec split: list.split)

lemma nth_transpose_table:
  "j < n_cols t \<Longrightarrow> i < length t \<Longrightarrow> transpose_table t ! j ! i = t ! i ! j"
  by (simp add: transpose_table_def)

lemma row_totals_transpose: "row_totals (transpose_table t) = col_totals t"
  by (simp add: row_totals_def col_totals_def transpose_table_def)

lemma col_totals_transpose:
  assumes "is_table t" and "0 < n_cols t"
  shows "col_totals (transpose_table t) = row_totals t"
proof -
  have "map (\<lambda>r. r ! i) (transpose_table t) = t ! i" if "i < length t" for i
  proof -
    have "map (\<lambda>r. r ! i) (transpose_table t) = map (\<lambda>j. t ! i ! j) [0..<n_cols t]"
      using that by (simp add: transpose_table_def)
    also have "\<dots> = map (\<lambda>j. t ! i ! j) [0..<length (t ! i)]"
      using is_table_row [OF assms(1) that] by simp
    also have "\<dots> = t ! i" by (rule map_nth)
    finally show ?thesis .
  qed
  then have "col_totals (transpose_table t) = map (\<lambda>i. sum_list (t ! i)) [0..<length t]"
    by (simp add: col_totals_def n_cols_transpose [OF assms(2)] n_rows_def)
  also have "\<dots> = map sum_list (map (\<lambda>i. t ! i) [0..<length t])" by simp
  also have "\<dots> = row_totals t" by (simp only: map_nth row_totals_def)
  finally show ?thesis .
qed

lemma sum_list_concat_rows:
  "sum_list (concat xss) = sum_list (map sum_list xss)"
  by (induction xss) simp_all

lemma sum_list_upt_sum:
  fixes f :: "nat \<Rightarrow> 'a::comm_monoid_add"
  shows "sum_list (map f [0..<n]) = (\<Sum>i<n. f i)"
  by (simp add: interv_sum_list_conv_sum_set_nat atLeast0LessThan)

lemma sum_list_rows:
  fixes f :: "nat \<Rightarrow> nat \<Rightarrow> 'a::comm_monoid_add"
  shows "sum_list (concat (map (\<lambda>i. map (f i) [0..<c]) [0..<r])) = (\<Sum>i<r. \<Sum>j<c. f i j)"
  by (simp add: sum_list_concat_rows comp_def sum_list_upt_sum)

lemma sum_list_rows_swap:
  fixes f :: "nat \<Rightarrow> nat \<Rightarrow> 'a::comm_monoid_add"
  shows "sum_list (concat (map (\<lambda>j. map (\<lambda>i. f i j) [0..<r]) [0..<c])) =
   sum_list (concat (map (\<lambda>i. map (f i) [0..<c]) [0..<r]))"
  using sum_list_rows [of "\<lambda>j i. f i j" r c] sum_list_rows [of f c r]
    sum.swap [of f "{..<c}" "{..<r}"] by simp

lemma table_by_index:
  assumes "is_table t"
  shows "t = map (\<lambda>i. map (\<lambda>j. t ! i ! j) [0..<n_cols t]) [0..<n_rows t]"
proof -
  have "map (\<lambda>j. t ! i ! j) [0..<n_cols t] = t ! i" if "i < length t" for i
    using is_table_row [OF assms that] map_nth [of "t ! i"] by simp
  then have "map (\<lambda>i. map (\<lambda>j. t ! i ! j) [0..<n_cols t]) [0..<n_rows t] =
      map (\<lambda>i. t ! i) [0..<length t]"
    by (simp add: n_rows_def)
  then show ?thesis by (simp add: map_nth)
qed

lemma grand_total_by_index:
  assumes "is_table t"
  shows "grand_total t = (\<Sum>i<n_rows t. \<Sum>j<n_cols t. t ! i ! j)"
proof -
  have "grand_total t = sum_list (concat t)"
    by (simp add: grand_total_def sum_list_concat_rows)
  also have "\<dots> = sum_list (concat (map (\<lambda>i. map (\<lambda>j. t ! i ! j) [0..<n_cols t]) [0..<n_rows t]))"
    using table_by_index [OF assms] by simp
  finally show ?thesis by (simp only: sum_list_rows)
qed

lemma is_table_transpose: "is_table (transpose_table t)"
proof (cases "n_cols t = 0")
  case True
  then show ?thesis by (simp add: is_table_def transpose_table_def)
next
  case False
  then have "n_cols (transpose_table t) = n_rows t" by (simp add: n_cols_transpose)
  then show ?thesis
    by (simp add: is_table_def list_all_iff n_rows_def) (auto simp add: transpose_table_def)
qed

lemma grand_total_transpose:
  assumes "is_table t" and "0 < n_cols t"
  shows "grand_total (transpose_table t) = grand_total t"
proof -
  have "grand_total (transpose_table t) =
      (\<Sum>j<n_cols t. \<Sum>i<n_rows t. transpose_table t ! j ! i)"
    using grand_total_by_index [OF is_table_transpose, of t]
    by (simp add: n_rows_transpose n_cols_transpose [OF assms(2)])
  also have "\<dots> = (\<Sum>j<n_cols t. \<Sum>i<n_rows t. t ! i ! j)"
    by (simp add: nth_transpose_table n_rows_def)
  also have "\<dots> = (\<Sum>i<n_rows t. \<Sum>j<n_cols t. t ! i ! j)" by (rule sum.swap)
  finally show ?thesis by (simp add: grand_total_by_index [OF assms(1)])
qed


lemma list_ex_by_index:
  assumes "is_table t"
  shows "list_ex (list_ex P) t \<longleftrightarrow> (\<exists>i<n_rows t. \<exists>j<n_cols t. P (t ! i ! j))"
proof -
  have "list_ex (list_ex P) (map (\<lambda>i. map (\<lambda>j. t ! i ! j) [0..<n_cols t]) [0..<n_rows t])
      \<longleftrightarrow> (\<exists>i<n_rows t. \<exists>j<n_cols t. P (t ! i ! j))"
    unfolding list_ex_iff by (simp add: Bex_def)
  with table_by_index [OF assms] show ?thesis by simp
qed

lemma list_ex_transpose:
  assumes "is_table t" and "0 < n_cols t"
  shows "list_ex (list_ex P) (transpose_table t) \<longleftrightarrow> list_ex (list_ex P) t"
proof -
  have "list_ex (list_ex P) (transpose_table t) \<longleftrightarrow>
      (\<exists>j<n_cols t. \<exists>i<n_rows t. P (transpose_table t ! j ! i))"
    using list_ex_by_index [OF is_table_transpose, of P t]
    by (simp add: n_rows_transpose n_cols_transpose [OF assms(2)])
  also have "\<dots> \<longleftrightarrow> (\<exists>j<n_cols t. \<exists>i<n_rows t. P (t ! i ! j))"
    by (intro ex_cong1 conj_cong refl) (simp add: nth_transpose_table n_rows_def)
  also have "\<dots> \<longleftrightarrow> (\<exists>i<n_rows t. \<exists>j<n_cols t. P (t ! i ! j))" by blast
  finally show ?thesis by (simp add: list_ex_by_index [OF assms(1)])
qed

lemma fmul_Fin_commute: "fmul (Fin a) (Fin b) = fmul (Fin b) (Fin a)"
  by (simp add: mult.commute)

lemma list_ex_expected_freq_transpose:
  assumes "is_table t" and "0 < n_cols t"
  shows "list_ex (list_ex P) (expected_freq (transpose_table t)) \<longleftrightarrow>
         list_ex (list_ex P) (expected_freq t)"
  unfolding list_ex_expected_freq row_totals_transpose col_totals_transpose [OF assms]
    grand_total_transpose [OF assms]
  by (subst fmul_Fin_commute) blast

text \<open>A table of doubles given by its cells.\<close>

lemma map_by_index: "map f xs = map (\<lambda>i. f (xs ! i)) [0..<length xs]"
  by (rule nth_equalityI) simp_all

lemma map2_same: "map2 f (map g xs) (map h xs) = map (\<lambda>x. f (g x) (h x)) xs"
  by (induction xs) simp_all

lemma map2_rows:
  "map2 (map2 f) (map (\<lambda>i. map (a i) [0..<c]) [0..<r]) (map (\<lambda>i. map (b i) [0..<c]) [0..<r]) =
     map (\<lambda>i. map (\<lambda>j. f (a i j) (b i j)) [0..<c]) [0..<r]"
  by (simp add: map2_same)

lemma expected_freq_by_index:
  "expected_freq t =
     map (\<lambda>i. map (\<lambda>j. fdiv (fmul (Fin (of_int (row_totals t ! i)))
                                   (Fin (of_int (col_totals t ! j))))
                            (Fin (of_int (grand_total t))))
                 [0..<n_cols t])
         [0..<n_rows t]"
proof -
  have r: "length (row_totals t) = n_rows t" by (simp add: row_totals_def n_rows_def)
  have c: "length (col_totals t) = n_cols t" by (simp add: col_totals_def)
  show ?thesis
    unfolding expected_freq_def
    by (subst map_by_index, subst (2) map_by_index) (simp only: r c)
qed

lemma observed_by_index:
  assumes "is_table t"
  shows "map (map (\<lambda>x. Fin (of_int x))) t =
     map (\<lambda>i. map (\<lambda>j. Fin (of_int (t ! i ! j))) [0..<n_cols t]) [0..<n_rows t]"
proof -
  have "map (map (\<lambda>x. Fin (of_int x))) (map (\<lambda>i. map (\<lambda>j. t ! i ! j) [0..<n_cols t]) [0..<n_rows t])
      = map (\<lambda>i. map (\<lambda>j. Fin (of_int (t ! i ! j))) [0..<n_cols t]) [0..<n_rows t]"
    by (simp add: comp_def)
  with table_by_index [OF assms] show ?thesis by simp
qed


lemma fsum_sum_list: "fsum xs = sum_list xs"
  by (induction xs) (simp_all add: fsum_def plus_float64_def zero_float64_def)

lemma statistic_rows:
  "statistic (map (\<lambda>i. map (a i) [0..<c]) [0..<r]) (map (\<lambda>i. map (b i) [0..<c]) [0..<r]) =
     sum_list (concat (map (\<lambda>i. map (\<lambda>j. pearson_term (a i j) (b i j)) [0..<c]) [0..<r]))"
  by (simp only: statistic_def map2_rows fsum_sum_list)

lemma expected_freq_transpose:
  assumes "is_table t" and "0 < n_cols t"
  shows "expected_freq (transpose_table t) =
     map (\<lambda>j. map (\<lambda>i. fdiv (fmul (Fin (of_int (row_totals t ! i)))
                                   (Fin (of_int (col_totals t ! j))))
                            (Fin (of_int (grand_total t))))
                 [0..<n_rows t])
         [0..<n_cols t]"
  unfolding expected_freq_by_index [of "transpose_table t"] row_totals_transpose
    col_totals_transpose [OF assms] grand_total_transpose [OF assms] n_rows_transpose
    n_cols_transpose [OF assms(2)]
  by (subst fmul_Fin_commute) (rule refl)

lemma observed_transpose:
  assumes "is_table t" and "0 < n_cols t"
  shows "map (map (\<lambda>x. Fin (of_int x))) (transpose_table t) =
     map (\<lambda>j. map (\<lambda>i. Fin (of_int (t ! i ! j))) [0..<n_rows t]) [0..<n_cols t]"
  unfolding observed_by_index [OF is_table_transpose, of t] n_rows_transpose
    n_cols_transpose [OF assms(2)]
  by (simp add: nth_transpose_table n_rows_def)

lemma statistic_transpose:
  assumes "is_table t" and "0 < n_cols t"
  shows "statistic (map2 (map2 adj) (map (map (\<lambda>x. Fin (of_int x))) (transpose_table t))
                      (expected_freq (transpose_table t)))
           (expected_freq (transpose_table t)) =
         statistic (map2 (map2 adj) (map (map (\<lambda>x. Fin (of_int x))) t) (expected_freq t))
           (expected_freq t)"
  unfolding expected_freq_transpose [OF assms] observed_transpose [OF assms]
    expected_freq_by_index [of t] observed_by_index [OF assms(1)] map2_rows statistic_rows
  by (rule sum_list_rows_swap)

lemma map2_fst_rows:
  "map2 (map2 (\<lambda>obs ex. obs)) (map (\<lambda>i. map (a i) [0..<c]) [0..<r])
      (map (\<lambda>i. map (b i) [0..<c]) [0..<r]) = map (\<lambda>i. map (a i) [0..<c]) [0..<r]"
  by (simp only: map2_rows)

lemma observed_as_map2:
  assumes "is_table t"
  shows "map (map (\<lambda>x. Fin (of_int x))) t =
     map2 (map2 (\<lambda>obs ex. obs)) (map (map (\<lambda>x. Fin (of_int x))) t) (expected_freq t)"
  unfolding expected_freq_by_index [of t] observed_by_index [OF assms] map2_fst_rows
  by (rule refl)

lemma statistic_plain_transpose:
  assumes "is_table t" and "0 < n_cols t"
  shows "statistic (map (map (\<lambda>x. Fin (of_int x))) (transpose_table t))
           (expected_freq (transpose_table t)) =
         statistic (map (map (\<lambda>x. Fin (of_int x))) t) (expected_freq t)"
  using statistic_transpose [OF assms, of "\<lambda>obs ex. obs"]
    observed_as_map2 [OF assms(1)] observed_as_map2 [OF is_table_transpose, of t]
  by simp

lemma chi2_contingency_transpose:
  assumes "is_table t" and "0 < n_cols t"
  shows "chi2_contingency (transpose_table t) =
           (case chi2_contingency t of
              Inl e \<Rightarrow> Inl e
            | Inr (chi2, p, dof, expected) \<Rightarrow>
                Inr (chi2, p, dof, expected_freq (transpose_table t)))"
  unfolding chi2_contingency_product [of "transpose_table t"] chi2_contingency_product [of t]
    list_ex_transpose [OF assms] list_ex_expected_freq_transpose [OF assms]
    n_rows_transpose n_cols_transpose [OF assms(2)] Let_def
  by (simp add: mult.commute statistic_transpose [OF assms]
        statistic_plain_transpose [OF assms])

lemma cal_cramer_v_transpose:
  assumes "is_table t"
  shows "cal_cramer_v chi2_contingency (transpose_table t) = cal_cramer_v chi2_contingency t"
proof (cases "n_cols t = 0")
  case True
  then have "chi2_contingency t = Inl ValueError"
    using assms by (auto simp add: chi2_contingency_def is_table_def list_ex_iff list_all_iff)
  moreover from True have "chi2_contingency (transpose_table t) = Inl ValueError"
    by (simp add: chi2_contingency_def transpose_table_def n_rows_def)
  ultimately show ?thesis by (simp add: cal_cramer_v_def)
next
  case False
  then have c: "0 < n_cols t" by simp
  show ?thesis
    unfolding cal_cramer_v_def chi2_contingency_transpose [OF assms c] shape_def
      n_rows_transpose n_cols_transpose [OF c] np_sum_def grand_total_transpose [OF assms c]
    by (simp add: min.commute split: sum.split prod.split)
qed


text \<open>
  C7. The claim fails on \<open>cal_cramer_v_adjusted\<close>, which has no value to compare: on a
  table and on its transpose the call ends in NameError. \<open>cal_cramer_v\<close> does return the
  same value on both tables here; \<open>cal_cramer_v_transpose\<close> above shows it for every
  table in exact arithmetic, where the doubles of the code, summed in another order,
  can differ in the last bit.
\<close>

theorem cal_cramer_v_adjusted_on_transpose:
  "transpose_table [[10, 20, 30], [20, 20, 20]] = [[10, 20], [20, 20], [30, 20]]
   \<and> cal_cramer_v_adjusted chi2_contingency [[10, 20, 30], [20, 20, 20]] = Inl NameError
   \<and> cal_cramer_v_adjusted chi2_contingency (transpose_table [[10, 20, 30], [20, 20, 20]]) =
       Inl NameError
   \<and> cal_cramer_v chi2_contingency (transpose_table [[10, 20, 30], [20, 20, 20]]) =
       cal_cramer_v chi2_contingency [[10, 20, 30], [20, 20, 20]]"
proof -
  have t: "is_table [[10, 20, 30], [20, 20, 20]]"
    by (simp add: is_table_def n_cols_def)
  have tr: "transpose_table [[10, 20, 30], [20, 20, 20]] = [[10, 20], [20, 20], [30, 20]]"
    by (simp add: transpose_table_def n_cols_def upt_rec)
  have "chi2_contingency [[10, 20], [20, 20], [30, 20]] =
      Inr (Fin (16 / 3), Fin (exp (- (8 / 3))), 2,
           [[Fin 15, Fin 15], [Fin 20, Fin 20], [Fin 25, Fin 25]])"
    by (simp add: chi2_contingency_unfold)
  then show ?thesis
    using cal_cramer_v_transpose [OF t]
    by (simp add: tr cal_cramer_v_adjusted_result chi2_contingency_2x3)
qed

section \<open>The statistic of an accepted table\<close>









section \<open>The value of the statistic\<close>












section \<open>Cramer's V of an accepted table\<close>





section \<open>The numerator of the adjusted score\<close>






end
